theory Spec2Isabelle
  imports Main
begin

section \<open>Python values\<close>

text \<open>
  The exceptions that the package manager can raise or catch. \<open>OSError\<close> stands for
  Python's \<open>OSError\<close> and its alias \<open>IOError\<close> with all subclasses
  (\<open>FileNotFoundError\<close>, \<open>IsADirectoryError\<close>, \<open>NotADirectoryError\<close>, ...).
  \<open>RequestException\<close> stands for \<open>requests.RequestException\<close> and its subclasses
  (\<open>HTTPError\<close>, \<open>ConnectionError\<close>, \<open>MissingSchema\<close>, the JSON error of
  \<open>response.json()\<close>); it is a subclass of \<open>IOError\<close>, but no request of the
  package manager is made inside the \<open>try\<close> that catches \<open>IOError\<close>. \<open>ReadError\<close> is
  \<open>tarfile.ReadError\<close> and \<open>BadZipFile\<close> is \<open>zipfile.BadZipFile\<close>. \<open>ProtocolError\<close>
  stands for the exceptions of \<open>urllib3\<close> that reading \<open>response.raw\<close> raises when
  the connection breaks (\<open>ProtocolError\<close>, \<open>IncompleteRead\<close>, \<open>ReadTimeoutError\<close>);
  they are no \<open>RequestException\<close> and no \<open>OSError\<close>. A \<open>ValueError\<close> carries its
  message.
\<close>

datatype py_error =
    ValueError string
  | AttributeError
  | TypeError
  | UnicodeDecodeError
  | JSONDecodeError
  | OSError
  | RequestException
  | ReadError
  | BadZipFile
  | EOFError
  | ProtocolError

text \<open>
  What \<open>json.load\<close> returns: \<open>None\<close>, \<open>bool\<close>, \<open>int\<close>, \<open>float\<close>, \<open>str\<close>,
  \<open>list\<close> and \<open>dict\<close>. A float is held as the text that Python prints for it; a dict is
  held as its items in insertion order (the keys of a Python dict are distinct).
  Strings are ASCII text.
\<close>

datatype json =
    JNull
  | JBool bool
  | JInt int
  | JFloat string
  | JStr string
  | JArr "json list"
  | JObj "(string \<times> json) list"

type_synonym pydict = "(string \<times> json) list"

text \<open>Truthiness, as \<open>if not x\<close> tests it.\<close>

fun truthy :: "json \<Rightarrow> bool" where
  "truthy JNull = False"
| "truthy (JBool b) = b"
| "truthy (JInt i) = (i \<noteq> 0)"
| "truthy (JFloat s) = (s \<noteq> ''0.0'' \<and> s \<noteq> ''-0.0'')"
| "truthy (JStr s) = (s \<noteq> [])"
| "truthy (JArr xs) = (xs \<noteq> [])"
| "truthy (JObj kvs) = (kvs \<noteq> [])"

text \<open>An optional string argument (\<open>query: str = None\<close>) is falsy when \<open>None\<close> or empty.\<close>

fun truthy_opt :: "string option \<Rightarrow> bool" where
  "truthy_opt None = False"
| "truthy_opt (Some s) = (s \<noteq> [])"

text \<open>\<open>d.get(key, default)\<close> on a dict, and \<open>d.get(key)\<close> whose default is \<open>None\<close>.\<close>

definition dict_get :: "pydict \<Rightarrow> string \<Rightarrow> json \<Rightarrow> json" where
  "dict_get d k dflt = (case map_of d k of None \<Rightarrow> dflt | Some v \<Rightarrow> v)"

text \<open>
  \<open>x.get(key, default)\<close> on any value: only a dict has the method, every other value
  raises \<open>AttributeError\<close>.
\<close>

fun py_get :: "json \<Rightarrow> string \<Rightarrow> json \<Rightarrow> py_error + json" where
  "py_get (JObj d) k dflt = Inr (dict_get d k dflt)"
| "py_get v k dflt = Inl AttributeError"

text \<open>
  \<open>{**d, key: v}\<close>: a key already present keeps its place and takes the new value,
  a new key goes last.
\<close>

fun dict_set :: "pydict \<Rightarrow> string \<Rightarrow> json \<Rightarrow> pydict" where
  "dict_set [] k v = [(k, v)]"
| "dict_set ((k', v') # d) k v = (if k' = k then (k, v) # d else (k', v') # dict_set d k v)"

subsection \<open>Strings\<close>

definition lower_char :: "char \<Rightarrow> char" where
  "lower_char c =
     (case map_of (zip ''ABCDEFGHIJKLMNOPQRSTUVWXYZ'' ''abcdefghijklmnopqrstuvwxyz'') c of
        None \<Rightarrow> c
      | Some l \<Rightarrow> l)"

definition py_lower :: "string \<Rightarrow> string" where
  "py_lower s = map lower_char s"

fun startswith :: "string \<Rightarrow> string \<Rightarrow> bool" where
  "startswith s [] = True"
| "startswith [] (c # q) = False"
| "startswith (d # s) (c # q) = (d = c \<and> startswith s q)"

definition endswith :: "string \<Rightarrow> string \<Rightarrow> bool" where
  "endswith s suf = startswith (rev s) (rev suf)"

text \<open>\<open>q in s\<close> on strings: \<open>q\<close> occurs in \<open>s\<close> as a contiguous piece.\<close>

fun py_in :: "string \<Rightarrow> string \<Rightarrow> bool" where
  "py_in q [] = (q = [])"
| "py_in q (c # s) = (startswith (c # s) q \<or> py_in q s)"

fun join :: "string \<Rightarrow> string list \<Rightarrow> string" where
  "join sep [] = []"
| "join sep [x] = x"
| "join sep (x # y # ys) = x @ sep @ join sep (y # ys)"

function str_of_nat :: "nat \<Rightarrow> string" where
  "str_of_nat n =
     (if n < 10 then [''0123456789'' ! n]
      else str_of_nat (n div 10) @ [''0123456789'' ! (n mod 10)])"
  by pat_completeness auto
termination
  by (relation "measure id") auto

definition str_of_int :: "int \<Rightarrow> string" where
  "str_of_int i = (if i < 0 then CHR ''-'' # str_of_nat (nat (- i)) else str_of_nat (nat i))"

text \<open>
  \<open>repr\<close> of a string: single quotes, unless the string holds a single quote and no
  double quote; the backslash, the chosen quote and the control characters are escaped.
\<close>

definition repr_char :: "char \<Rightarrow> char \<Rightarrow> string" where
  "repr_char quote c =
     (let n = (of_char c :: nat) in
      if c = CHR 0x5C then [CHR 0x5C, CHR 0x5C]
      else if c = quote then [CHR 0x5C, quote]
      else if c = CHR 0x09 then [CHR 0x5C, CHR ''t'']
      else if c = CHR 0x0A then [CHR 0x5C, CHR ''n'']
      else if c = CHR 0x0D then [CHR 0x5C, CHR ''r'']
      else if n < 32 \<or> n = 127
        then [CHR 0x5C, CHR ''x'', ''0123456789abcdef'' ! (n div 16), ''0123456789abcdef'' ! (n mod 16)]
      else [c])"

definition repr_str :: "string \<Rightarrow> string" where
  "repr_str s =
     (let quote = (if CHR 0x27 \<in> set s \<and> CHR 0x22 \<notin> set s then CHR 0x22 else CHR 0x27)
      in [quote] @ concat (map (repr_char quote) s) @ [quote])"

fun py_repr :: "json \<Rightarrow> string" where
  "py_repr JNull = ''None''"
| "py_repr (JBool b) = (if b then ''True'' else ''False'')"
| "py_repr (JInt i) = str_of_int i"
| "py_repr (JFloat s) = s"
| "py_repr (JStr s) = repr_str s"
| "py_repr (JArr xs) = ''['' @ join '', '' (map py_repr xs) @ '']''"
| "py_repr (JObj kvs) =
     ''{'' @ join '', '' (map (\<lambda>(k, v). repr_str k @ '': '' @ py_repr v) kvs) @ ''}''"

text \<open>\<open>str(v)\<close>: a string is itself, every other value prints as its \<open>repr\<close>.\<close>

fun py_str :: "json \<Rightarrow> string" where
  "py_str (JStr s) = s"
| "py_str v = py_repr v"

section \<open>The file system\<close>

text \<open>
  A path is the list of its components below the root. A file is held as what
  \<open>open(path, 'r')\<close> followed by \<open>json.load\<close> gives on it: the parsed value, or the
  exception raised (\<open>JSONDecodeError\<close> for text that is not JSON, \<open>UnicodeDecodeError\<close>
  for bytes that are not text, \<open>OSError\<close> for a file that cannot be read). A directory
  lists its entries in the order in which the file system enumerates them, and says
  whether the process may make entries in it. Every directory can be listed and
  searched; there are no links.
\<close>

type_synonym path = "string list"

type_synonym content = "py_error + json"

datatype access = Writable | ReadOnly

datatype node =
    File content
  | Dir access "(string \<times> node) list"

text \<open>The node at a path, if there is one.\<close>

fun lookup :: "node \<Rightarrow> path \<Rightarrow> node option" where
  "lookup n [] = Some n"
| "lookup (File c) (x # p) = None"
| "lookup (Dir a es) (x # p) = (case map_of es x of None \<Rightarrow> None | Some ch \<Rightarrow> lookup ch p)"

text \<open>
  \<open>os.stat\<close>: the system walks the path one component at a time. A name of more than
  255 bytes, looked up in a directory, is refused (\<open>ENAMETOOLONG\<close>, raised as
  \<open>OSError\<close>); a missing entry (\<open>ENOENT\<close>) and a file on the way (\<open>ENOTDIR\<close>) give
  no node. The limit on the length of a whole path is not modelled.
\<close>

definition name_max :: nat where
  "name_max = 255"

fun stat :: "node \<Rightarrow> path \<Rightarrow> py_error + node option" where
  "stat n [] = Inr (Some n)"
| "stat (File c) (x # p) = Inr None"
| "stat (Dir a es) (x # p) =
     (if name_max < length x then Inl OSError
      else case map_of es x of None \<Rightarrow> Inr None | Some ch \<Rightarrow> stat ch p)"

text \<open>
  \<open>Path.exists()\<close> and \<open>Path.is_dir()\<close>, as up to Python 3.12: the errors \<open>ENOENT\<close>
  and \<open>ENOTDIR\<close> of \<open>stat\<close> give \<open>False\<close>, every other \<open>OSError\<close> is raised.
\<close>

definition path_exists :: "node \<Rightarrow> path \<Rightarrow> py_error + bool" where
  "path_exists root p =
     (case stat root p of
        Inl e \<Rightarrow> Inl e
      | Inr None \<Rightarrow> Inr False
      | Inr (Some n) \<Rightarrow> Inr True)"

definition is_dir :: "node \<Rightarrow> path \<Rightarrow> py_error + bool" where
  "is_dir root p =
     (case stat root p of
        Inl e \<Rightarrow> Inl e
      | Inr (Some (Dir a es)) \<Rightarrow> Inr True
      | Inr other \<Rightarrow> Inr False)"

text \<open>\<open>str(path)\<close> of an absolute path.\<close>

definition path_str :: "path \<Rightarrow> string" where
  "path_str p = (if p = [] then ''/'' else concat (map (\<lambda>c. ''/'' @ c) p))"

text \<open>Replacing or adding one entry of a directory; a new entry goes last.\<close>

fun set_entry :: "(string \<times> node) list \<Rightarrow> string \<Rightarrow> node \<Rightarrow> (string \<times> node) list" where
  "set_entry [] x n = [(x, n)]"
| "set_entry ((y, m) # es) x n = (if y = x then (x, n) # es else (y, m) # set_entry es x n)"

text \<open>
  \<open>os.mkdir(path)\<close> makes one directory. It raises \<open>FileNotFoundError\<close> when the
  parent is missing, and another \<open>OSError\<close> when a file is on the way, the name is too
  long, the path exists, or no entry may be made in the parent. The new directory gets
  the access that the umask of the process leaves (\<open>new\<close>).
\<close>

datatype mkdir_result =
    Made node
  | NoParent
  | MkdirError

fun os_mkdir :: "access \<Rightarrow> node \<Rightarrow> path \<Rightarrow> mkdir_result" where
  "os_mkdir new n [] = MkdirError"
| "os_mkdir new (File c) (x # p) = MkdirError"
| "os_mkdir new (Dir a es) (x # p) =
     (if name_max < length x then MkdirError
      else case map_of es x of
        None \<Rightarrow>
          (if p \<noteq> [] then NoParent
           else if a = Writable then Made (Dir a (es @ [(x, Dir new [])]))
           else MkdirError)
      | Some ch \<Rightarrow>
          (case os_mkdir new ch p of
             Made ch' \<Rightarrow> Made (Dir a (set_entry es x ch'))
           | NoParent \<Rightarrow> NoParent
           | MkdirError \<Rightarrow> MkdirError))"

text \<open>
  \<open>Path.mkdir(parents=True, exist_ok=True)\<close>, as \<open>pathlib\<close> defines it: \<open>os.mkdir\<close>
  is tried; on \<open>FileNotFoundError\<close> the parent is made in the same way and \<open>os.mkdir\<close>
  is tried once more; every other \<open>OSError\<close> is raised unless the path is a directory.
  The directories made before a failure stay. The result is the exception, if any, and
  the file system that is left.
\<close>

function mkdir_p :: "access \<Rightarrow> node \<Rightarrow> path \<Rightarrow> (py_error + unit) \<times> node" where
  "mkdir_p new root p =
     (case os_mkdir new root p of
        Made root' \<Rightarrow> (Inr (), root')
      | NoParent \<Rightarrow>
          (if p = [] then (Inl OSError, root)
           else
             (case mkdir_p new root (butlast p) of
                (Inl e, root1) \<Rightarrow> (Inl e, root1)
              | (Inr u, root1) \<Rightarrow>
                  (case os_mkdir new root1 p of
                     Made root2 \<Rightarrow> (Inr (), root2)
                   | NoParent \<Rightarrow> (Inl OSError, root1)
                   | MkdirError \<Rightarrow>
                       (if is_dir root1 p = Inr True then (Inr (), root1)
                        else (Inl OSError, root1)))))
      | MkdirError \<Rightarrow>
          (if is_dir root p = Inr True then (Inr (), root) else (Inl OSError, root)))"
  by pat_completeness auto
termination
  by (relation "measure (\<lambda>(new, root, p). length p)") auto

declare mkdir_p.simps [simp del]

text \<open>
  Writing one extracted file: missing parent directories are made, a file at the path
  is overwritten; a directory at the path, a file on the way, a name that is too long
  and a directory in which no entry may be made raise \<open>OSError\<close>. The directories made
  before a failure stay.
\<close>

fun write_file :: "access \<Rightarrow> node \<Rightarrow> path \<Rightarrow> content \<Rightarrow> (py_error + unit) \<times> node" where
  "write_file new (File old) [] c = (Inr (), File c)"
| "write_file new (Dir a es) [] c = (Inl OSError, Dir a es)"
| "write_file new (File old) (x # p) c = (Inl OSError, File old)"
| "write_file new (Dir a es) (x # p) c =
     (if name_max < length x then (Inl OSError, Dir a es)
      else case map_of es x of
        None \<Rightarrow>
          (if a \<noteq> Writable then (Inl OSError, Dir a es)
           else if p = [] then (Inr (), Dir a (es @ [(x, File c)]))
           else
             (case write_file new (Dir new []) p c of
                (r, ch) \<Rightarrow> (r, Dir a (es @ [(x, ch)]))))
      | Some ch \<Rightarrow>
          (case write_file new ch p c of
             (r, ch') \<Rightarrow> (r, Dir a (set_entry es x ch'))))"

text \<open>
  \<open>open(path, 'r')\<close> then \<open>json.load\<close>: a path that \<open>stat\<close> refuses, a missing path
  and a directory raise \<open>OSError\<close>; a file gives what it holds.
\<close>

definition json_load :: "node \<Rightarrow> path \<Rightarrow> py_error + json" where
  "json_load root p =
     (case stat root p of
        Inr (Some (File c)) \<Rightarrow> c
      | other \<Rightarrow> Inl OSError)"

text \<open>
  The glob patterns of \<open>get_resource_files\<close>: \<open>*.json\<close>, and \<open>*T*.json\<close> for a
  resource type \<open>T\<close> (taken literally: no glob character in \<open>T\<close>).
\<close>

definition fnmatch_json :: "string option \<Rightarrow> string \<Rightarrow> bool" where
  "fnmatch_json resource_type name =
     (endswith name ''.json'' \<and>
      (case resource_type of
         None \<Rightarrow> True
       | Some t \<Rightarrow> t = [] \<or> py_in t (take (length name - 5) name)))"

text \<open>
  \<open>d.rglob(pattern)\<close>: the entries below \<open>d\<close>, at any depth, whose name matches; first
  the matching entries of a directory, then those of its subdirectories in turn.
  A path that is a file has nothing below it.
\<close>

fun rglob :: "(string \<Rightarrow> bool) \<Rightarrow> path \<Rightarrow> node \<Rightarrow> path list" where
  "rglob m p (File c) = []"
| "rglob m p (Dir a es) =
     map (\<lambda>e. p @ [fst e]) (filter (\<lambda>e. m (fst e)) es) @
     concat (map (\<lambda>e. rglob m (p @ [fst e]) (snd e)) es)"

section \<open>The package manager\<close>

record manager =
  cache_dir :: path
  registry_url :: string

text \<open>
  \<open>__init__\<close> sets the registry to \<open>https://packages.fhir.org\<close> (and makes the cache
  directory).
\<close>

definition new_manager :: "path \<Rightarrow> manager" where
  "new_manager dir = \<lparr>cache_dir = dir, registry_url = ''https://packages.fhir.org''\<rparr>"

text \<open>
  \<open>path / s\<close>, as \<open>pathlib\<close> joins: \<open>s\<close> is cut at its slashes, the empty pieces and
  the pieces \<open>.\<close> are dropped, and an \<open>s\<close> that starts with a slash replaces the path.
  (A piece \<open>..\<close> stays in the path as it is; what the system makes of it is outside
  this model.)
\<close>

fun split_slash :: "string \<Rightarrow> string list" where
  "split_slash [] = [[]]"
| "split_slash (c # s) =
     (case split_slash s of
        [] \<Rightarrow> [[c]]
      | x # xs \<Rightarrow> (if c = CHR ''/'' then [] # x # xs else (c # x) # xs))"

definition parts :: "string \<Rightarrow> path" where
  "parts s = filter (\<lambda>x. x \<noteq> [] \<and> x \<noteq> ''.'') (split_slash s)"

definition joinpath :: "path \<Rightarrow> string \<Rightarrow> path" where
  "joinpath p s = (if startswith s ''/'' then parts s else p @ parts s)"

text \<open>\<open>self.cache_dir / package_id / version\<close>.\<close>

definition package_dir :: "manager \<Rightarrow> string \<Rightarrow> string \<Rightarrow> path" where
  "package_dir self package_id version = joinpath (joinpath (cache_dir self) package_id) version"

subsection \<open>\<open>get_resource_files\<close>\<close>

definition search_dirs :: "path \<Rightarrow> path list" where
  "search_dirs pdir = [joinpath pdir ''package'', pdir, joinpath pdir ''input'']"

text \<open>
  The loop over the search directories. \<open>rglob\<close> on a path that is no directory gives
  nothing.
\<close>

fun extend_files ::
  "node \<Rightarrow> string option \<Rightarrow> path list \<Rightarrow> path list \<Rightarrow> py_error + path list" where
  "extend_files root resource_type [] resource_files = Inr resource_files"
| "extend_files root resource_type (search_dir # rest) resource_files =
     (case path_exists root search_dir of
        Inl e \<Rightarrow> Inl e
      | Inr False \<Rightarrow> extend_files root resource_type rest resource_files
      | Inr True \<Rightarrow>
          extend_files root resource_type rest
            (case stat root search_dir of
               Inr (Some n) \<Rightarrow> resource_files @ rglob (fnmatch_json resource_type) search_dir n
             | other \<Rightarrow> resource_files))"

definition get_resource_files ::
  "manager \<Rightarrow> node \<Rightarrow> string \<Rightarrow> string \<Rightarrow> string option \<Rightarrow> py_error + path list" where
  "get_resource_files self root package_id version resource_type =
     (case path_exists root (package_dir self package_id version) of
        Inl e \<Rightarrow> Inl e
      | Inr False \<Rightarrow> Inr []
      | Inr True \<Rightarrow>
          extend_files root resource_type
            (search_dirs (package_dir self package_id version)) [])"

subsection \<open>\<open>build_resource_index\<close>\<close>

text \<open>The index: a dict from bucket name to the list of its records, in insertion order.\<close>

type_synonym index = "(string \<times> pydict list) list"

definition empty_index :: index where
  "empty_index =
     [(''StructureDefinition'', []),
      (''ValueSet'', []),
      (''CodeSystem'', []),
      (''SearchParameter'', []),
      (''OperationDefinition'', []),
      (''CapabilityStatement'', []),
      (''examples'', [])]"

text \<open>
  \<open>resource_type in index\<close>: the value is hashed first, and a list or a dict raises
  \<open>TypeError\<close>; only a string can equal a key.
\<close>

fun in_index :: "json \<Rightarrow> index \<Rightarrow> py_error + bool" where
  "in_index (JStr s) index = Inr (s \<in> set (map fst index))"
| "in_index (JArr xs) index = Inl TypeError"
| "in_index (JObj kvs) index = Inl TypeError"
| "in_index v index = Inr False"

text \<open>\<open>index[key].append(record)\<close>.\<close>

fun bucket_append :: "index \<Rightarrow> string \<Rightarrow> pydict \<Rightarrow> index" where
  "bucket_append [] key r = []"
| "bucket_append ((k, rs) # index) key r =
     (if k = key then (k, rs @ [r]) # index else (k, rs) # bucket_append index key r)"

text \<open>
  The two branches of the loop body, as the bucket and the record that is appended
  to it: a resource whose type is a key of the index (it is a string then) goes to that
  bucket with six fields, every other one goes to \<open>examples\<close> with three.
\<close>

definition index_record :: "index \<Rightarrow> path \<Rightarrow> json \<Rightarrow> py_error + (string \<times> pydict)" where
  "index_record index file_path resource =
     (case py_get resource ''resourceType'' (JStr ''unknown'') of
        Inl e \<Rightarrow> Inl e
      | Inr resource_type \<Rightarrow>
          (case resource of
             JObj d \<Rightarrow>
               (case in_index resource_type index of
                  Inl e \<Rightarrow> Inl e
                | Inr True \<Rightarrow>
                    Inr (py_str resource_type,
                         [(''id'', dict_get d ''id'' JNull),
                          (''url'', dict_get d ''url'' JNull),
                          (''name'', dict_get d ''name'' JNull),
                          (''title'', dict_get d ''title'' JNull),
                          (''version'', dict_get d ''version'' JNull),
                          (''file_path'', JStr (path_str file_path))])
                | Inr False \<Rightarrow>
                    Inr (''examples'',
                         [(''resourceType'', resource_type),
                          (''id'', dict_get d ''id'' JNull),
                          (''file_path'', JStr (path_str file_path))]))
           | _ \<Rightarrow> Inl AttributeError))"

text \<open>The \<open>try\<close> block of the loop body, and its \<open>except (json.JSONDecodeError, IOError)\<close>.\<close>

definition try_index_file :: "node \<Rightarrow> path \<Rightarrow> index \<Rightarrow> py_error + index" where
  "try_index_file root file_path index =
     (case json_load root file_path of
        Inl e \<Rightarrow> Inl e
      | Inr resource \<Rightarrow>
          (case index_record index file_path resource of
             Inl e \<Rightarrow> Inl e
           | Inr (key, r) \<Rightarrow> Inr (bucket_append index key r)))"

definition caught :: "py_error \<Rightarrow> bool" where
  "caught e = (e = JSONDecodeError \<or> e = OSError)"

definition index_file :: "node \<Rightarrow> path \<Rightarrow> index \<Rightarrow> py_error + index" where
  "index_file root file_path index =
     (case try_index_file root file_path index of
        Inl e \<Rightarrow> (if caught e then Inr index else Inl e)
      | Inr index' \<Rightarrow> Inr index')"

fun index_files :: "node \<Rightarrow> path list \<Rightarrow> index \<Rightarrow> py_error + index" where
  "index_files root [] index = Inr index"
| "index_files root (file_path # rest) index =
     (case index_file root file_path index of
        Inl e \<Rightarrow> Inl e
      | Inr index' \<Rightarrow> index_files root rest index')"

definition build_resource_index ::
  "manager \<Rightarrow> node \<Rightarrow> string \<Rightarrow> string \<Rightarrow> py_error + index" where
  "build_resource_index self root package_id version =
     (case get_resource_files self root package_id version None of
        Inl e \<Rightarrow> Inl e
      | Inr resource_files \<Rightarrow> index_files root resource_files empty_index)"

subsection \<open>\<open>search_resources\<close>\<close>

text \<open>\<open>{**resource, "resourceType": res_type}\<close>.\<close>

definition tagged :: "string \<Rightarrow> pydict \<Rightarrow> pydict" where
  "tagged res_type resource = dict_set resource ''resourceType'' (JStr res_type)"

text \<open>The test of the \<open>elif\<close> branch.\<close>

definition field_has :: "string \<Rightarrow> pydict \<Rightarrow> string \<Rightarrow> bool" where
  "field_has query resource field =
     py_in (py_lower query) (py_lower (py_str (dict_get resource field (JStr []))))"

definition query_matches :: "string \<Rightarrow> pydict \<Rightarrow> bool" where
  "query_matches query resource =
     (field_has query resource ''name'' \<or>
      field_has query resource ''url'' \<or>
      field_has query resource ''title'')"

fun search_bucket ::
  "string option \<Rightarrow> string \<Rightarrow> pydict list \<Rightarrow> pydict list \<Rightarrow> pydict list" where
  "search_bucket query res_type [] results = results"
| "search_bucket query res_type (resource # rest) results =
     search_bucket query res_type rest
       (if \<not> truthy_opt query then results @ [tagged res_type resource]
        else if query_matches (the query) resource then results @ [tagged res_type resource]
        else results)"

fun search_index ::
  "string option \<Rightarrow> string option \<Rightarrow> index \<Rightarrow> pydict list \<Rightarrow> pydict list" where
  "search_index query resource_type [] results = results"
| "search_index query resource_type ((res_type, resources) # rest) results =
     (if truthy_opt resource_type \<and> Some res_type \<noteq> resource_type
      then search_index query resource_type rest results
      else search_index query resource_type rest
             (search_bucket query res_type resources results))"

definition search_resources ::
  "manager \<Rightarrow> node \<Rightarrow> string \<Rightarrow> string \<Rightarrow> string option \<Rightarrow> string option
     \<Rightarrow> py_error + pydict list" where
  "search_resources self root package_id version query resource_type =
     (case build_resource_index self root package_id version of
        Inl e \<Rightarrow> Inl e
      | Inr index \<Rightarrow> Inr (search_index query resource_type index []))"

subsection \<open>What the loops compute\<close>

text \<open>The candidate files that \<open>build_resource_index\<close> loops over.\<close>

definition candidate_files :: "manager \<Rightarrow> node \<Rightarrow> string \<Rightarrow> string \<Rightarrow> path list" where
  "candidate_files self root package_id version =
     (case get_resource_files self root package_id version None of
        Inl e \<Rightarrow> []
      | Inr resource_files \<Rightarrow> resource_files)"

text \<open>The condition under which the inner loop of the search appends a record.\<close>

definition kept :: "string option \<Rightarrow> pydict \<Rightarrow> bool" where
  "kept query resource = (\<not> truthy_opt query \<or> query_matches (the query) resource)"

text \<open>
  The record that the loop body appends for one candidate file, with its bucket, if it
  appends one. The keys of the index never change, so the test \<open>resource_type in index\<close>
  is the same at every iteration as on the initial index.
\<close>

definition file_entry :: "node \<Rightarrow> path \<Rightarrow> (string \<times> pydict) option" where
  "file_entry root file_path =
     (case json_load root file_path of
        Inl e \<Rightarrow> None
      | Inr resource \<Rightarrow>
          (case index_record empty_index file_path resource of
             Inl e \<Rightarrow> None
           | Inr kr \<Rightarrow> Some kr))"

text \<open>The exception, if any, that one candidate file makes the indexing loop raise.\<close>

definition file_raises :: "node \<Rightarrow> path \<Rightarrow> py_error option" where
  "file_raises root file_path =
     (case try_index_file root file_path empty_index of
        Inl e \<Rightarrow> (if caught e then None else Some e)
      | Inr index' \<Rightarrow> None)"

text \<open>
  The entries that the indexing loop appends for a list of candidate files, in order,
  and the index after appending a list of entries.
\<close>

definition add_entry :: "index \<Rightarrow> string \<times> pydict \<Rightarrow> index" where
  "add_entry index kr = bucket_append index (fst kr) (snd kr)"

fun entries :: "node \<Rightarrow> path list \<Rightarrow> (string \<times> pydict) list" where
  "entries root [] = []"
| "entries root (file_path # rest) =
     (case file_entry root file_path of
        None \<Rightarrow> entries root rest
      | Some kr \<Rightarrow> kr # entries root rest)"

text \<open>The records of a list of indexed entries that belong to one bucket.\<close>

definition records_of :: "string \<Rightarrow> (string \<times> pydict) list \<Rightarrow> pydict list" where
  "records_of key es = map snd (filter (\<lambda>kr. fst kr = key) es)"

text \<open>The number of records in all buckets.\<close>

definition total_records :: "index \<Rightarrow> nat" where
  "total_records index = sum_list (map (\<lambda>b. length (snd b)) index)"

subsection \<open>\<open>install_package\<close>\<close>

text \<open>
  The network is a table from URL to reply; a URL that is not in the table cannot be
  reached. A reply has a status code and a body; the body of a reply is JSON, a gzipped
  tar archive, a zip archive, or none of these. An archive is the list of the member
  files that can be read from it, each with its path relative to the destination, a
  list of plain names (a member whose name leaves the destination is outside this
  model), and the way it ends: complete, cut short (the body ends early and the
  connection closes in order), damaged after these members, or dropped (the connection
  breaks after these members).
\<close>

datatype ending = Complete | Truncated | Corrupt | Dropped

datatype payload =
    JsonDoc json
  | TarGz "(path \<times> content) list" ending
  | ZipArchive "(path \<times> content) list" ending
  | Junk

datatype reply =
    Unreachable
  | Reply nat payload

type_synonym net = "(string \<times> reply) list"

text \<open>
  The state: the file system, the URLs requested so far, and the access that the umask
  of the process leaves to a new directory.
\<close>

record world =
  fs :: node
  requested :: "string list"
  new_dir_access :: access

text \<open>
  \<open>requests.get(url)\<close> followed by \<open>response.raise_for_status()\<close>: a request is made;
  an unreachable URL and a status from 400 to 599 raise a \<open>RequestException\<close>.
\<close>

definition requests_get :: "net \<Rightarrow> string \<Rightarrow> world \<Rightarrow> (py_error + payload) \<times> world" where
  "requests_get net url w =
     (case map_of net url of
        None \<Rightarrow> Inl RequestException
      | Some Unreachable \<Rightarrow> Inl RequestException
      | Some (Reply status body) \<Rightarrow>
          (if 400 \<le> status \<and> status < 600 then Inl RequestException else Inr body),
      w\<lparr>requested := requested w @ [url]\<rparr>)"

definition metadata_url :: "manager \<Rightarrow> string \<Rightarrow> string \<Rightarrow> string" where
  "metadata_url self package_id version =
     (let url = registry_url self @ ''/'' @ package_id
      in if version \<noteq> ''latest'' then url @ ''/'' @ version else url)"

text \<open>
  \<open>_get_package_metadata\<close>: the parsed body, or \<open>None\<close> when the request, the status
  or the parsing of the body raises a \<open>RequestException\<close>.
\<close>

definition get_package_metadata ::
  "net \<Rightarrow> manager \<Rightarrow> string \<Rightarrow> string \<Rightarrow> world \<Rightarrow> json \<times> world" where
  "get_package_metadata net self package_id version w =
     (case requests_get net (metadata_url self package_id version) w of
        (Inl e, w') \<Rightarrow> (JNull, w')
      | (Inr (JsonDoc j), w') \<Rightarrow> (j, w')
      | (Inr body, w') \<Rightarrow> (JNull, w'))"

text \<open>
  The members of an archive are written below the destination one after the other; the
  first one that cannot be written raises, and what was written before stays.
\<close>

fun write_members ::
  "access \<Rightarrow> node \<Rightarrow> path \<Rightarrow> (path \<times> content) list \<Rightarrow> (py_error + unit) \<times> node" where
  "write_members new root destination [] = (Inr (), root)"
| "write_members new root destination ((p, c) # members) =
     (case write_file new root (destination @ p) c of
        (Inl e, root') \<Rightarrow> (Inl e, root')
      | (Inr u, root') \<Rightarrow> write_members new root' destination members)"

text \<open>
  \<open>tarfile.open(fileobj=response.raw, mode='r:gz')\<close> and \<open>tar.extractall(destination)\<close>:
  the archive is read from the connection while it is extracted. The members that can
  be read are written; then a stream that was cut short raises \<open>EOFError\<close>, a damaged
  one raises \<open>ReadError\<close>, and a broken connection raises \<open>ProtocolError\<close>. A body
  that is no gzipped tar archive raises \<open>ReadError\<close> before anything is written.
\<close>

definition tar_extractall :: "access \<Rightarrow> node \<Rightarrow> path \<Rightarrow> payload \<Rightarrow> (py_error + unit) \<times> node" where
  "tar_extractall new root destination body =
     (case body of
        TarGz members end \<Rightarrow>
          (case write_members new root destination members of
             (Inl e, root') \<Rightarrow> (Inl e, root')
           | (Inr u, root') \<Rightarrow>
               (case end of
                  Complete \<Rightarrow> (Inr (), root')
                | Truncated \<Rightarrow> (Inl EOFError, root')
                | Corrupt \<Rightarrow> (Inl ReadError, root')
                | Dropped \<Rightarrow> (Inl ProtocolError, root')))
      | other \<Rightarrow> (Inl ReadError, root))"

text \<open>
  \<open>zipfile.ZipFile(io.BytesIO(response.content))\<close> and \<open>zip_file.extractall(destination)\<close>:
  the whole body is read first, and a broken connection makes \<open>response.content\<close>
  raise a \<open>RequestException\<close> before anything is written. A body that is no zip
  archive, or one that was cut short (the directory of a zip archive is at its end),
  raises \<open>BadZipFile\<close> before anything is written; a damaged member raises
  \<open>BadZipFile\<close> after it and the members before it are written.
\<close>

definition zip_extractall :: "access \<Rightarrow> node \<Rightarrow> path \<Rightarrow> payload \<Rightarrow> (py_error + unit) \<times> node" where
  "zip_extractall new root destination body =
     (case body of
        ZipArchive members end \<Rightarrow>
          (if end = Dropped then (Inl RequestException, root)
           else if end = Truncated then (Inl BadZipFile, root)
           else
             (case write_members new root destination members of
                (Inl e, root') \<Rightarrow> (Inl e, root')
              | (Inr u, root') \<Rightarrow>
                  (if end = Corrupt then (Inl BadZipFile, root') else (Inr (), root'))))
      | other \<Rightarrow> (Inl BadZipFile, root))"

definition unsupported_msg :: "string \<Rightarrow> string" where
  "unsupported_msg url = ''Unsupported archive format: '' @ url"

text \<open>The \<open>ValueError\<close> of \<open>_download_and_extract\<close>, recognised by its message.\<close>

definition unsupported_format :: "py_error \<Rightarrow> bool" where
  "unsupported_format e =
     (case e of
        ValueError msg \<Rightarrow> startswith msg ''Unsupported archive format: ''
      | _ \<Rightarrow> False)"

text \<open>
  \<open>_download_and_extract\<close>. The URL comes from the metadata and may be any value;
  \<open>requests\<close> refuses one that is not a string.
\<close>

definition download_and_extract ::
  "net \<Rightarrow> json \<Rightarrow> path \<Rightarrow> world \<Rightarrow> (py_error + unit) \<times> world" where
  "download_and_extract net download_url destination w =
     (case download_url of
        JStr url \<Rightarrow>
          (case requests_get net url w of
             (Inl e, w') \<Rightarrow> (Inl e, w')
           | (Inr body, w') \<Rightarrow>
               (if endswith url ''.tgz'' \<or> endswith url ''.tar.gz'' then
                  (case tar_extractall (new_dir_access w') (fs w') destination body of
                     (r, root') \<Rightarrow> (r, w'\<lparr>fs := root'\<rparr>))
                else if endswith url ''.zip'' then
                  (case zip_extractall (new_dir_access w') (fs w') destination body of
                     (r, root') \<Rightarrow> (r, w'\<lparr>fs := root'\<rparr>))
                else (Inl (ValueError (unsupported_msg url)), w')))
      | _ \<Rightarrow> (Inl RequestException, w))"

definition not_found_msg :: "string \<Rightarrow> string \<Rightarrow> string" where
  "not_found_msg package_id version = ''Package '' @ package_id @ ''@'' @ version @ '' not found''"

definition no_url_msg :: "string \<Rightarrow> string \<Rightarrow> string" where
  "no_url_msg package_id version = ''No download URL found for '' @ package_id @ ''@'' @ version"

definition install_package ::
  "net \<Rightarrow> manager \<Rightarrow> string \<Rightarrow> string \<Rightarrow> world \<Rightarrow> (py_error + path) \<times> world" where
  "install_package net self package_id version w =
     (case path_exists (fs w) (package_dir self package_id version) of
        Inl e \<Rightarrow> (Inl e, w)
      | Inr True \<Rightarrow> (Inr (package_dir self package_id version), w)
      | Inr False \<Rightarrow>
        (case get_package_metadata net self package_id version w of
           (metadata, w1) \<Rightarrow>
             if \<not> truthy metadata
             then (Inl (ValueError (not_found_msg package_id version)), w1)
             else
               (case py_get metadata ''dist'' (JObj []) of
                  Inl e \<Rightarrow> (Inl e, w1)
                | Inr dist \<Rightarrow>
                    (case py_get dist ''tarball'' JNull of
                       Inl e \<Rightarrow> (Inl e, w1)
                     | Inr download_url \<Rightarrow>
                         if \<not> truthy download_url
                         then (Inl (ValueError (no_url_msg package_id version)), w1)
                         else
                           (case mkdir_p (new_dir_access w1) (fs w1)
                                   (package_dir self package_id version) of
                              (Inl e, root') \<Rightarrow> (Inl e, w1\<lparr>fs := root'\<rparr>)
                            | (Inr u, root') \<Rightarrow>
                                (case download_and_extract net download_url
                                        (package_dir self package_id version)
                                        (w1\<lparr>fs := root'\<rparr>) of
                                   (Inl e, w2) \<Rightarrow> (Inl e, w2)
                                 | (Inr u', w2) \<Rightarrow>
                                     (Inr (package_dir self package_id version), w2)))))))"

section \<open>Example inputs\<close>

text \<open>
  A manager whose cache is \<open>/cache\<close>; an installed package \<open>pkg\<close> 1.0.0 with the
  three files of Scenario A at its root; the same value set file under \<open>package/\<close>,
  where a FHIR package keeps its resources; a package with a file that is not JSON and
  a file that holds a JSON array; a package with a file that declares the resource
  type \<open>examples\<close>.
\<close>

definition example_manager :: manager where
  "example_manager = new_manager [''cache'']"

definition tree_a :: node where
  "tree_a =
     Dir Writable [(''cache'', Dir Writable [(''pkg'', Dir Writable [(''1.0.0'', Dir Writable
       [(''a.json'', File (Inr (JObj [(''resourceType'', JStr ''StructureDefinition''),
                                      (''name'', JStr ''Foo'')]))),
        (''b.json'', File (Inr (JObj [(''resourceType'', JStr ''ValueSet''),
                                      (''url'', JStr ''http://x/vs1'')]))),
        (''c.json'', File (Inr (JObj [(''resourceType'', JStr ''Patient'')])))])])])]"

definition tree_packaged :: node where
  "tree_packaged =
     Dir Writable [(''cache'', Dir Writable [(''pkg'', Dir Writable [(''1.0.0'', Dir Writable
       [(''package'', Dir Writable
          [(''b.json'', File (Inr (JObj [(''resourceType'', JStr ''ValueSet''),
                                         (''url'', JStr ''http://x/vs1'')])))])])])])]"

definition tree_list :: node where
  "tree_list =
     Dir Writable [(''cache'', Dir Writable [(''pkg'', Dir Writable [(''1.0.0'', Dir Writable
       [(''bad.json'', File (Inl JSONDecodeError)),
        (''list.json'', File (Inr (JArr []))),
        (''b.json'', File (Inr (JObj [(''resourceType'', JStr ''ValueSet''),
                                      (''url'', JStr ''http://x/vs1'')])))])])])]"

definition tree_examples :: node where
  "tree_examples =
     Dir Writable [(''cache'', Dir Writable [(''pkg'', Dir Writable [(''1.0.0'', Dir Writable
       [(''e.json'', File (Inr (JObj [(''resourceType'', JStr ''examples''),
                                      (''name'', JStr ''Foo'')])))])])])]"



definition tgz_net :: net where
  "tgz_net =
     [(''https://packages.fhir.org/core'',
       Reply 200 (JsonDoc (JObj [(''dist'', JObj [(''tarball'', JStr ''https://x.org/core.tgz'')])]))),
      (''https://x.org/core.tgz'',
       Reply 200 (TarGz [([''package'', ''package.json''], Inr (JObj [(''name'', JStr ''core'')]))]
                    Complete))]"




text \<open>
  An empty cache, with a umask that leaves new directories writable (\<open>world0\<close>) and
  with one that does not (\<open>world_umask\<close>).
\<close>

definition world0 :: world where
  "world0 =
     \<lparr>fs = Dir Writable [(''cache'', Dir Writable [])], requested = [],
      new_dir_access = Writable\<rparr>"


text \<open>The state after \<open>core\<close> has been installed from \<open>tgz_net\<close> into \<open>world0\<close>.\<close>

definition world1 :: world where
  "world1 =
     \<lparr>fs = Dir Writable [(''cache'', Dir Writable [(''core'', Dir Writable [(''latest'', Dir Writable
              [(''package'', Dir Writable
                 [(''package.json'', File (Inr (JObj [(''name'', JStr ''core'')])))])])])])],
      requested = [''https://packages.fhir.org/core'', ''https://x.org/core.tgz''],
      new_dir_access = Writable\<rparr>"

text \<open>The index of Scenario A.\<close>

definition index_a :: index where
  "index_a =
     [(''StructureDefinition'',
       [[(''id'', JNull), (''url'', JNull), (''name'', JStr ''Foo''), (''title'', JNull),
         (''version'', JNull), (''file_path'', JStr ''/cache/pkg/1.0.0/a.json'')]]),
      (''ValueSet'',
       [[(''id'', JNull), (''url'', JStr ''http://x/vs1''), (''name'', JNull), (''title'', JNull),
         (''version'', JNull), (''file_path'', JStr ''/cache/pkg/1.0.0/b.json'')]]),
      (''CodeSystem'', []),
      (''SearchParameter'', []),
      (''OperationDefinition'', []),
      (''CapabilityStatement'', []),
      (''examples'',
       [[(''resourceType'', JStr ''Patient''), (''id'', JNull),
         (''file_path'', JStr ''/cache/pkg/1.0.0/c.json'')]])]"

section \<open>Properties of the string operations\<close>

lemma startswith_iff: "startswith s q \<longleftrightarrow> (\<exists>b. s = q @ b)"
  by (induction s q rule: startswith.induct) auto

lemma endswith_iff: "endswith s suf \<longleftrightarrow> (\<exists>a. s = a @ suf)"
proof -
  have "(\<exists>b. rev s = rev suf @ b) \<longleftrightarrow> (\<exists>a. s = a @ suf)"
  proof
    assume "\<exists>b. rev s = rev suf @ b"
    then obtain b where "rev s = rev suf @ b" ..
    then have "s = rev b @ suf" by (simp add: rev_swap)
    then show "\<exists>a. s = a @ suf" ..
  next
    assume "\<exists>a. s = a @ suf"
    then show "\<exists>b. rev s = rev suf @ b" by auto
  qed
  then show ?thesis by (simp add: endswith_def startswith_iff)
qed

lemma py_in_iff: "py_in q s \<longleftrightarrow> (\<exists>a b. s = a @ q @ b)"
proof (induction s)
  case Nil
  then show ?case by simp
next
  case (Cons c s)
  have "(\<exists>a b. c # s = a @ q @ b) \<longleftrightarrow> (\<exists>b. c # s = q @ b) \<or> (\<exists>a b. s = a @ q @ b)"
    by (auto simp: Cons_eq_append_conv)
  then show ?case using Cons by (simp add: startswith_iff)
qed

lemma py_lower_empty: "py_lower q = [] \<longleftrightarrow> q = []"
  by (simp add: py_lower_def)

section \<open>Properties of the file system\<close>

lemma map_of_set_entry: "map_of (set_entry es x n) y = (if y = x then Some n else map_of es y)"
  by (induction es x n rule: set_entry.induct) auto



lemma is_dir_exists: "is_dir root p = Inr True \<Longrightarrow> path_exists root p = Inr True"
  by (auto simp: is_dir_def path_exists_def split: sum.splits option.splits node.splits)

lemma stat_lookup: "stat root p = Inr r \<Longrightarrow> lookup root p = r"
  by (induction root p rule: stat.induct) (auto split: if_splits option.splits)

lemma map_of_snoc: "map_of es x = None \<Longrightarrow> map_of (es @ [(x, n)]) x = Some n"
  by (induction es) auto

text \<open>A directory that \<open>os.mkdir\<close> has made is there.\<close>

lemma os_mkdir_made: "os_mkdir new root p = Made root' \<Longrightarrow> is_dir root' p = Inr True"
proof (induction new root p arbitrary: root' rule: os_mkdir.induct)
  case (3 new a es x p)
  show ?case
  proof (cases "map_of es x")
    case None
    with "3.prems" have "p = []" and "root' = Dir a (es @ [(x, Dir new [])])"
      and "\<not> name_max < length x"
      by (auto split: if_splits)
    then show ?thesis
      using map_of_snoc [OF None, of "Dir new []"] by (simp add: is_dir_def del: map_of_append)
  next
    case (Some ch)
    with "3.prems" obtain ch' where m: "os_mkdir new ch p = Made ch'"
      and r: "root' = Dir a (set_entry es x ch')" and n: "\<not> name_max < length x"
      by (auto split: if_splits mkdir_result.splits)
    from "3.IH" [OF n Some m] show ?thesis
      using n by (simp add: r is_dir_def map_of_set_entry)
  qed
qed simp_all

text \<open>
  \<open>mkdir\<close> with parents: when it returns, the path is a directory; when it raises,
  it raises \<open>OSError\<close>.
\<close>

lemma mkdir_p_is_dir: "mkdir_p new root p = (Inr u, root') \<Longrightarrow> is_dir root' p = Inr True"
  by (subst (asm) mkdir_p.simps)
     (auto split: mkdir_result.splits if_splits prod.splits sum.splits dest: os_mkdir_made)

lemma mkdir_p_error: "mkdir_p new root p = (Inl e, root') \<Longrightarrow> e = OSError"
proof (induction new root p arbitrary: e root' rule: mkdir_p.induct)
  case (1 new root p)
  from "1.prems" show ?case
    by (subst (asm) mkdir_p.simps)
       (auto split: mkdir_result.splits if_splits prod.splits sum.splits dest: "1.IH")
qed

text \<open>Writing below a directory leaves it a directory, whether the write succeeds or not.\<close>

lemma write_file_is_dir:
  "is_dir root d = Inr True \<Longrightarrow> is_dir (snd (write_file new root (d @ q) c)) d = Inr True"
proof (induction d arbitrary: root)
  case Nil
  then show ?case
    by (cases root; cases q) (auto simp: is_dir_def split: prod.splits option.splits)
next
  case (Cons x d)
  from Cons.prems obtain a es ch where r: "root = Dir a es" and n: "\<not> name_max < length x"
    and m: "map_of es x = Some ch" and ch: "is_dir ch d = Inr True"
    by (cases root) (auto simp: is_dir_def split: if_splits option.splits)
  obtain res ch' where w: "write_file new ch (d @ q) c = (res, ch')"
    by (cases "write_file new ch (d @ q) c")
  from Cons.IH [OF ch] w have "is_dir ch' d = Inr True" by simp
  then show ?case
    using n m w by (simp add: r is_dir_def map_of_set_entry)
qed


lemma write_members_is_dir:
  "is_dir root d = Inr True \<Longrightarrow> is_dir (snd (write_members new root d members)) d = Inr True"
proof (induction members arbitrary: root)
  case Nil
  then show ?case by simp
next
  case (Cons m members)
  obtain p c where m: "m = (p, c)" by (cases m)
  obtain r root1 where w: "write_file new root (d @ p) c = (r, root1)"
    by (cases "write_file new root (d @ p) c")
  have d1: "is_dir root1 d = Inr True"
    using write_file_is_dir [OF Cons.prems, of new p c] w by simp
  show ?case
    using Cons.IH [OF d1] d1 by (cases r) (simp_all add: m w)
qed


text \<open>
  Extraction leaves the destination a directory; what it raises is an \<open>OSError\<close> of a
  write, or the error of a damaged archive or of a broken connection.
\<close>

lemma write_members_keeps_dir:
  "write_members new root d members = (r, root') \<Longrightarrow> is_dir root d = Inr True \<Longrightarrow>
   is_dir root' d = Inr True"
  using write_members_is_dir [of root d new members] by simp

lemma tar_extractall_is_dir:
  "tar_extractall new root d body = (r, root') \<Longrightarrow> is_dir root d = Inr True \<Longrightarrow>
   is_dir root' d = Inr True"
  by (auto simp: tar_extractall_def split: payload.splits prod.splits sum.splits ending.splits
      dest: write_members_keeps_dir)

lemma zip_extractall_is_dir:
  "zip_extractall new root d body = (r, root') \<Longrightarrow> is_dir root d = Inr True \<Longrightarrow>
   is_dir root' d = Inr True"
  by (auto simp: zip_extractall_def split: payload.splits prod.splits sum.splits if_splits
      dest: write_members_keeps_dir)



section \<open>Properties of install\<close>

lemma requests_get_world:
  "requests_get net url w = (r, w') \<Longrightarrow>
   fs w' = fs w \<and> requested w' = requested w @ [url] \<and> new_dir_access w' = new_dir_access w"
  by (auto simp: requests_get_def)

lemma requests_get_error: "requests_get net url w = (Inl e, w') \<Longrightarrow> e = RequestException"
  by (auto simp: requests_get_def split: option.splits reply.splits if_splits)

lemma get_package_metadata_world:
  "get_package_metadata net self pid ver w = (j, w') \<Longrightarrow>
   fs w' = fs w \<and> requested w' = requested w @ [metadata_url self pid ver] \<and>
   new_dir_access w' = new_dir_access w"
  by (auto simp: get_package_metadata_def requests_get_def
      split: prod.splits sum.splits payload.splits)

lemma startswith_append: "startswith (p @ s) p"
  by (induction p) auto

lemma unsupported_format_msg: "unsupported_format (ValueError (unsupported_msg url))"
  by (simp add: unsupported_format_def unsupported_msg_def startswith_append)



text \<open>
  What \<open>_download_and_extract\<close> can do: it raises before anything is written (the
  request fails, or the suffix is not supported), or it extracts, and then the file
  system is the one that the extraction left.
\<close>

lemma download_and_extract_cases:
  assumes "download_and_extract net u d w = (r, w')"
  shows "(\<exists>e. r = Inl e \<and> (e = RequestException \<or> unsupported_format e) \<and> fs w' = fs w)
       \<or> (\<exists>body. (r, fs w') = tar_extractall (new_dir_access w) (fs w) d body)
       \<or> (\<exists>body. (r, fs w') = zip_extractall (new_dir_access w) (fs w) d body)"
proof (cases u)
  case (JStr url)
  obtain g w1 where g: "requests_get net url w = (g, w1)"
    by (cases "requests_get net url w")
  note w1 = requests_get_world [OF g]
  show ?thesis
  proof (cases g)
    case (Inl x)
    with g have "x = RequestException" by (simp add: requests_get_error)
    with assms JStr g Inl w1 show ?thesis by (auto simp: download_and_extract_def)
  next
    case (Inr body)
    show ?thesis
    proof (cases "endswith url ''.tgz'' \<or> endswith url ''.tar.gz''")
      case True
      with assms JStr g Inr w1
      have "(r, fs w') = tar_extractall (new_dir_access w) (fs w) d body"
        by (auto simp: download_and_extract_def split: prod.splits)
      then show ?thesis by blast
    next
      case nt: False
      show ?thesis
      proof (cases "endswith url ''.zip''")
        case True
        with assms JStr g Inr w1 nt
        have "(r, fs w') = zip_extractall (new_dir_access w) (fs w) d body"
          by (auto simp: download_and_extract_def split: prod.splits)
        then show ?thesis by blast
      next
        case False
        with assms JStr g Inr w1 nt unsupported_format_msg [of url] show ?thesis
          by (auto simp: download_and_extract_def)
      qed
    qed
  qed
qed (use assms in \<open>auto simp: download_and_extract_def\<close>)

lemma download_and_extract_is_dir:
  assumes "download_and_extract net u d w = (r, w')" and "is_dir (fs w) d = Inr True"
  shows "is_dir (fs w') d = Inr True"
  using download_and_extract_cases [OF assms(1)] assms(2)
  by (metis tar_extractall_is_dir zip_extractall_is_dir)


text \<open>
  An install of an identity that is not cached stops before the directory is made, with
  the file system as it was; or \<open>mkdir\<close> raises; or the directory is made and the
  outcome of the download is the outcome of the install.
\<close>

lemma install_not_cached:
  assumes nx: "path_exists (fs w) (package_dir self pid ver) = Inr False"
  shows "(\<exists>e w'. install_package net self pid ver w = (Inl e, w') \<and> fs w' = fs w \<and>
            (e = ValueError (not_found_msg pid ver) \<or> e = ValueError (no_url_msg pid ver) \<or>
             e = AttributeError))
       \<or> (\<exists>w'. install_package net self pid ver w = (Inl OSError, w') \<and>
             mkdir_p (new_dir_access w) (fs w) (package_dir self pid ver) = (Inl OSError, fs w'))
       \<or> (\<exists>download_url w1 root' r w2.
             mkdir_p (new_dir_access w) (fs w) (package_dir self pid ver) = (Inr (), root') \<and>
             download_and_extract net download_url (package_dir self pid ver)
               (w1\<lparr>fs := root'\<rparr>) = (r, w2) \<and>
             install_package net self pid ver w =
               (case r of Inl e \<Rightarrow> Inl e | Inr u \<Rightarrow> Inr (package_dir self pid ver), w2))"
proof -
  let ?d = "package_dir self pid ver"
  obtain metadata w1 where m: "get_package_metadata net self pid ver w = (metadata, w1)"
    by (cases "get_package_metadata net self pid ver w")
  have f1: "fs w1 = fs w" and a1: "new_dir_access w1 = new_dir_access w"
    using get_package_metadata_world [OF m] by simp_all
  show ?thesis
  proof (cases "truthy metadata")
    case False
    then show ?thesis using nx m f1 by (simp add: install_package_def)
  next
    case t: True
    show ?thesis
    proof (cases "py_get metadata ''dist'' (JObj [])")
      case (Inl x)
      then have "x = AttributeError" by (cases metadata) auto
      then show ?thesis using nx m f1 t Inl by (simp add: install_package_def)
    next
      case dist: (Inr dist)
      show ?thesis
      proof (cases "py_get dist ''tarball'' JNull")
        case (Inl x)
        then have "x = AttributeError" by (cases dist) auto
        then show ?thesis using nx m f1 t dist Inl by (simp add: install_package_def)
      next
        case url: (Inr download_url)
        show ?thesis
        proof (cases "truthy download_url")
          case False
          then show ?thesis using nx m f1 t dist url by (simp add: install_package_def)
        next
          case tu: True
          obtain mr root' where mk: "mkdir_p (new_dir_access w) (fs w) ?d = (mr, root')"
            by (cases "mkdir_p (new_dir_access w) (fs w) ?d")
          show ?thesis
          proof (cases mr)
            case (Inl x)
            with mk have "x = OSError" by (simp add: mkdir_p_error)
            then show ?thesis
              using nx m f1 a1 t dist url tu mk Inl by (simp add: install_package_def)
          next
            case (Inr u)
            obtain r w2 where d: "download_and_extract net download_url ?d (w1\<lparr>fs := root'\<rparr>) = (r, w2)"
              by (cases "download_and_extract net download_url ?d (w1\<lparr>fs := root'\<rparr>)")
            have "install_package net self pid ver w =
                    (case r of Inl e \<Rightarrow> Inl e | Inr u \<Rightarrow> Inr ?d, w2)"
              using nx m f1 a1 t dist url tu mk Inr d
              by (simp add: install_package_def split: sum.splits)
            with mk Inr d show ?thesis by auto
          qed
        qed
      qed
    qed
  qed
qed


lemma install_success:
  assumes ok: "install_package net self pid ver w = (Inr p, w')"
  shows "p = package_dir self pid ver \<and> path_exists (fs w') (package_dir self pid ver) = Inr True"
proof -
  let ?d = "package_dir self pid ver"
  show ?thesis
  proof (cases "path_exists (fs w) ?d")
    case (Inl e)
    with ok show ?thesis by (simp add: install_package_def)
  next
    case (Inr b)
    show ?thesis
    proof (cases b)
      case True
      with ok Inr show ?thesis by (auto simp: install_package_def)
    next
      case False
      with Inr have nx: "path_exists (fs w) ?d = Inr False" by simp
      from install_not_cached [OF nx, of net]
      consider
        (early) e0 w0 where "install_package net self pid ver w = (Inl e0, w0)"
      | (late) download_url w1 root' r w2 where
          "mkdir_p (new_dir_access w) (fs w) ?d = (Inr (), root')"
          "download_and_extract net download_url ?d (w1\<lparr>fs := root'\<rparr>) = (r, w2)"
          "install_package net self pid ver w =
             (case r of Inl e \<Rightarrow> Inl e | Inr u \<Rightarrow> Inr ?d, w2)"
        by blast
      then show ?thesis
      proof cases
        case early
        with ok show ?thesis by simp
      next
        case late
        from late(3) ok have p: "p = ?d" and w2: "w2 = w'"
          by (auto split: sum.splits)
        have "is_dir (fs w') ?d = Inr True"
          using download_and_extract_is_dir [OF late(2)] mkdir_p_is_dir [OF late(1)] w2 by simp
        then show ?thesis using p by (simp add: is_dir_exists)
      qed
    qed
  qed
qed

section \<open>Properties of indexing and search\<close>


lemma candidate_files_eq:
  "get_resource_files self root pid ver None = Inr files \<Longrightarrow>
   candidate_files self root pid ver = files"
  by (simp add: candidate_files_def)

lemma search_bucket_eq:
  "search_bucket query res_type resources results =
     results @ map (tagged res_type) (filter (kept query) resources)"
  by (induction resources arbitrary: results) (simp_all add: kept_def)

lemma search_index_eq:
  "search_index query resource_type index results =
     results @ concat (map (\<lambda>b. if truthy_opt resource_type \<and> Some (fst b) \<noteq> resource_type then []
                                  else map (tagged (fst b)) (filter (kept query) (snd b))) index)"
  by (induction index arbitrary: results) (auto simp: search_bucket_eq)

lemma keys_bucket_append: "map fst (bucket_append index key r) = map fst index"
  by (induction index) auto

lemma map_keep_others:
  "key \<notin> fst ` set index \<Longrightarrow>
   map (\<lambda>b. (fst b, if fst b = key then snd b @ [r] else snd b)) index = index"
  by (induction index) auto

lemma bucket_append_distinct:
  "distinct (map fst index) \<Longrightarrow>
   bucket_append index key r = map (\<lambda>b. (fst b, if fst b = key then snd b @ [r] else snd b)) index"
  by (induction index) (auto simp: map_keep_others)

lemma in_index_keys: "map fst index = map fst index' \<Longrightarrow> in_index v index = in_index v index'"
  by (cases v) simp_all

lemma index_record_keys:
  "map fst index = map fst index' \<Longrightarrow> index_record index f res = index_record index' f res"
  unfolding index_record_def
  by (simp add: in_index_keys [of index index'] cong: sum.case_cong json.case_cong)

lemma index_file_eq:
  assumes "map fst index = map fst empty_index"
  shows "index_file root f index =
     (case file_raises root f of
        Some e \<Rightarrow> Inl e
      | None \<Rightarrow> Inr (case file_entry root f of None \<Rightarrow> index | Some kr \<Rightarrow> bucket_append index (fst kr) (snd kr)))"
  using index_record_keys [OF assms]
  by (auto simp: index_file_def file_raises_def file_entry_def try_index_file_def
      split: sum.splits prod.splits option.splits)

lemma keys_foldl_add: "map fst (foldl add_entry index es) = map fst index"
  by (induction es arbitrary: index) (simp_all add: add_entry_def keys_bucket_append)

lemma index_files_eq:
  "map fst index = map fst empty_index \<Longrightarrow>
   index_files root files index = Inr index' \<longleftrightarrow>
     (\<forall>f \<in> set files. file_raises root f = None) \<and>
     index' = foldl add_entry index (entries root files)"
proof (induction files arbitrary: index)
  case Nil
  then show ?case by auto
next
  case (Cons f files)
  show ?case
  proof (cases "file_raises root f")
    case (Some e)
    then show ?thesis by (simp add: index_file_eq [OF Cons.prems])
  next
    case None
    let ?index1 = "case file_entry root f of None \<Rightarrow> index | Some kr \<Rightarrow> add_entry index kr"
    have k: "map fst ?index1 = map fst empty_index"
      using Cons.prems by (simp add: add_entry_def keys_bucket_append split: option.splits)
    have "index_files root (f # files) index = index_files root files ?index1"
      using None by (simp add: index_file_eq [OF Cons.prems] add_entry_def split: option.splits)
    then show ?thesis
      using Cons.IH [OF k] None
      by (auto split: option.splits)
  qed
qed

lemma foldl_add_distinct:
  "distinct (map fst index) \<Longrightarrow>
   foldl add_entry index es = map (\<lambda>b. (fst b, snd b @ records_of (fst b) es)) index"
proof (induction es arbitrary: index)
  case Nil
  then show ?case by (simp add: records_of_def)
next
  case (Cons kr es)
  have d: "distinct (map fst (add_entry index kr))"
    using Cons.prems by (simp add: add_entry_def keys_bucket_append)
  show ?case
    by (simp add: Cons.IH [OF d])
       (simp add: add_entry_def bucket_append_distinct [OF Cons.prems] records_of_def)
qed

lemma map_of_dict_set: "map_of (dict_set d k v) k' = (if k' = k then Some v else map_of d k')"
  by (induction d k v rule: dict_set.induct) auto

lemma dict_get_tagged:
  "dict_get (tagged res_type resource) k dflt =
     (if k = ''resourceType'' then JStr res_type else dict_get resource k dflt)"
  by (simp add: dict_get_def tagged_def map_of_dict_set)

lemma distinct_empty_index: "distinct (map fst empty_index)"
  by (simp add: empty_index_def)

lemma build_resource_index_eq:
  "build_resource_index self root pid ver = Inr index \<longleftrightarrow>
     (\<exists>files. get_resource_files self root pid ver None = Inr files) \<and>
     (\<forall>f \<in> set (candidate_files self root pid ver). file_raises root f = None) \<and>
     index = map (\<lambda>b. (fst b, records_of (fst b) (entries root (candidate_files self root pid ver))))
               empty_index"
proof -
  have e: "foldl add_entry empty_index es = map (\<lambda>b. (fst b, records_of (fst b) es)) empty_index"
    for es
    by (simp add: foldl_add_distinct [OF distinct_empty_index]) (simp add: empty_index_def)
  show ?thesis
  proof (cases "get_resource_files self root pid ver None")
    case (Inl x)
    then show ?thesis by (simp add: build_resource_index_def)
  next
    case (Inr files)
    then show ?thesis
      by (simp add: build_resource_index_def candidate_files_def index_files_eq e)
  qed
qed

lemma in_index_True: "in_index v index = Inr True \<Longrightarrow> py_str v \<in> fst ` set index"
  by (cases v) auto

lemma index_record_key:
  assumes "index_record index f res = Inr kr" and "''examples'' \<in> fst ` set index"
  shows "fst kr \<in> fst ` set index"
proof -
  from assms(1) have "fst kr = ''examples'' \<or> (\<exists>v. in_index v index = Inr True \<and> fst kr = py_str v)"
    by (auto simp: index_record_def split: sum.splits json.splits bool.splits)
  then show ?thesis
    using assms(2) in_index_True by metis
qed

lemma file_entry_key:
  assumes "file_entry root f = Some kr"
  shows "fst kr \<in> fst ` set empty_index"
proof -
  have e: "''examples'' \<in> fst ` set empty_index" by (simp add: empty_index_def)
  from assms obtain res where "index_record empty_index f res = Inr kr"
    by (auto simp: file_entry_def split: sum.splits)
  from index_record_key [OF this e] show ?thesis .
qed

lemma set_entries:
  "kr \<in> set (entries root files) \<longleftrightarrow> (\<exists>f \<in> set files. file_entry root f = Some kr)"
  by (induction files) (auto split: option.splits)

lemma records_of_other:
  "k \<notin> set keys \<Longrightarrow>
   sum_list (map (\<lambda>k'. length (records_of k' ((k, r) # es))) keys) =
   sum_list (map (\<lambda>k'. length (records_of k' es)) keys)"
  by (induction keys) (auto simp: records_of_def)

lemma records_of_one:
  "distinct keys \<Longrightarrow> k \<in> set keys \<Longrightarrow>
   sum_list (map (\<lambda>k'. length (records_of k' ((k, r) # es))) keys) =
   Suc (sum_list (map (\<lambda>k'. length (records_of k' es)) keys))"
proof (induction keys)
  case Nil
  then show ?case by simp
next
  case (Cons k' keys)
  show ?case
  proof (cases "k' = k")
    case True
    then have "k \<notin> set keys" using Cons.prems by simp
    from records_of_other [OF this] True show ?thesis by (simp add: records_of_def)
  next
    case False
    then show ?thesis using Cons by (simp add: records_of_def)
  qed
qed

lemma length_records_of:
  "distinct keys \<Longrightarrow> \<forall>kr \<in> set es. fst kr \<in> set keys \<Longrightarrow>
   sum_list (map (\<lambda>k. length (records_of k es)) keys) = length es"
proof (induction es)
  case Nil
  then show ?case by (simp add: records_of_def)
next
  case (Cons kr es)
  show ?case using Cons records_of_one [of keys "fst kr" "snd kr" es] by simp
qed

text \<open>
  The index has one record for every entry of the candidate list that the loop body
  indexed: an entry listed twice is counted twice.
\<close>

lemma total_records_eq:
  assumes "build_resource_index self root pid ver = Inr index"
  shows "total_records index = length (entries root (candidate_files self root pid ver))"
proof -
  let ?es = "entries root (candidate_files self root pid ver)"
  have i: "index = map (\<lambda>b. (fst b, records_of (fst b) ?es)) empty_index"
    using assms by (simp add: build_resource_index_eq)
  have "\<forall>kr \<in> set ?es. fst kr \<in> set (map fst empty_index)"
  proof
    fix kr
    assume "kr \<in> set ?es"
    then obtain f where "file_entry root f = Some kr"
      by (auto simp: set_entries)
    from file_entry_key [OF this] show "fst kr \<in> set (map fst empty_index)" by simp
  qed
  from length_records_of [OF distinct_empty_index this] show ?thesis
    by (simp add: i total_records_def comp_def)
qed

text \<open>
  A record without the fields \<open>name\<close>, \<open>url\<close> and \<open>title\<close> matches no query that is
  not empty; the records of the \<open>else\<close> branch are such records.
\<close>

lemma no_fields_no_match:
  assumes "map_of r ''name'' = None" and "map_of r ''url'' = None" and "map_of r ''title'' = None"
    and "q \<noteq> []"
  shows "\<not> query_matches q r"
  using assms by (simp add: query_matches_def field_has_def dict_get_def py_lower_def)

lemma else_branch_record:
  assumes "index_record index f resource = Inr (key, r)"
    and "\<forall>s. py_get resource ''resourceType'' (JStr ''unknown'') = Inr (JStr s) \<longrightarrow>
             s \<notin> fst ` set index"
  shows "key = ''examples'' \<and> map fst r = [''resourceType'', ''id'', ''file_path''] \<and>
         (q \<noteq> [] \<longrightarrow> \<not> query_matches q r)"
proof -
  from assms obtain d where d: "resource = JObj d"
    by (cases resource) (auto simp: index_record_def)
  have "in_index (dict_get d ''resourceType'' (JStr ''unknown'')) index \<noteq> Inr True"
    using assms(2) d by (cases "dict_get d ''resourceType'' (JStr ''unknown'')") auto
  with assms(1) d have k: "key = ''examples''"
    and r: "r = [(''resourceType'', dict_get d ''resourceType'' (JStr ''unknown'')),
                 (''id'', dict_get d ''id'' JNull),
                 (''file_path'', JStr (path_str f))]"
    by (auto simp: index_record_def split: sum.splits bool.splits)
  show ?thesis
    using k r no_fields_no_match [of r q] by simp
qed

section \<open>The claims\<close>

text \<open>
  Scenario A on the model: the index, a search for \<open>foo\<close>, and a search of the
  \<open>examples\<close> bucket.
\<close>

lemma scenario_a:
  "build_resource_index example_manager tree_a ''pkg'' ''1.0.0'' = Inr index_a \<and>
   search_resources example_manager tree_a ''pkg'' ''1.0.0'' (Some ''foo'') None =
     Inr [[(''id'', JNull), (''url'', JNull), (''name'', JStr ''Foo''), (''title'', JNull),
           (''version'', JNull), (''file_path'', JStr ''/cache/pkg/1.0.0/a.json''),
           (''resourceType'', JStr ''StructureDefinition'')]] \<and>
   search_resources example_manager tree_a ''pkg'' ''1.0.0'' None (Some ''examples'') =
     Inr [[(''resourceType'', JStr ''examples''), (''id'', JNull),
           (''file_path'', JStr ''/cache/pkg/1.0.0/c.json'')]]"
  by code_simp

subsection \<open>C1: a failed install\<close>




subsection \<open>C2: one record for every candidate file\<close>

text \<open>
  C2 fails on the code. The three search directories overlap: the recursive glob of the
  package directory finds again what the globs of \<open>package/\<close> and \<open>input/\<close> find.
  A package with the one file \<open>package/b.json\<close> has that file twice in the candidate
  list and twice in the \<open>ValueSet\<close> bucket.
\<close>

theorem packaged_file_indexed_twice:
  "get_resource_files example_manager tree_packaged ''pkg'' ''1.0.0'' None =
     Inr [[''cache'', ''pkg'', ''1.0.0'', ''package'', ''b.json''],
          [''cache'', ''pkg'', ''1.0.0'', ''package'', ''b.json'']] \<and>
   build_resource_index example_manager tree_packaged ''pkg'' ''1.0.0'' =
     Inr [(''StructureDefinition'', []),
          (''ValueSet'',
           [[(''id'', JNull), (''url'', JStr ''http://x/vs1''), (''name'', JNull),
             (''title'', JNull), (''version'', JNull),
             (''file_path'', JStr ''/cache/pkg/1.0.0/package/b.json'')],
            [(''id'', JNull), (''url'', JStr ''http://x/vs1''), (''name'', JNull),
             (''title'', JNull), (''version'', JNull),
             (''file_path'', JStr ''/cache/pkg/1.0.0/package/b.json'')]]),
          (''CodeSystem'', []),
          (''SearchParameter'', []),
          (''OperationDefinition'', []),
          (''CapabilityStatement'', []),
          (''examples'', [])]"
  by code_simp

subsection \<open>C3: install is idempotent\<close>

text \<open>
  C3. When the directory of the identity exists, \<open>install_package\<close> returns the
  resolved path and leaves the state as it was: the file system is unchanged and no
  request is made. Every install that succeeds returns the resolved path, and an
  install repeated in the state it left returns the same path and changes nothing.
\<close>

theorem install_idempotent:
  "(path_exists (fs w) (package_dir self pid ver) = Inr True \<longrightarrow>
      install_package net self pid ver w = (Inr (package_dir self pid ver), w) \<and>
      requested (snd (install_package net self pid ver w)) = requested w \<and>
      fs (snd (install_package net self pid ver w)) = fs w) \<and>
   (install_package net self pid ver w0 = (Inr p, w1) \<longrightarrow>
      p = package_dir self pid ver \<and> install_package net self pid ver w1 = (Inr p, w1))"
  using install_success [of net self pid ver w0 p w1]
  by (auto simp: install_package_def)

text \<open>The theorem at the install of \<open>core\<close> from \<open>tgz_net\<close>, done twice.\<close>

theorem install_idempotent_witness:
  "install_package tgz_net example_manager ''core'' ''latest'' world0 =
     (Inr [''cache'', ''core'', ''latest''], world1) \<and>
   install_package tgz_net example_manager ''core'' ''latest'' world1 =
     (Inr [''cache'', ''core'', ''latest''], world1) \<and>
   requested world1 = [''https://packages.fhir.org/core'', ''https://x.org/core.tgz'']"
proof -
  have first: "install_package tgz_net example_manager ''core'' ''latest'' world0 =
      (Inr [''cache'', ''core'', ''latest''], world1)"
    by code_simp
  have cached: "path_exists (fs world1) (package_dir example_manager ''core'' ''latest'') = Inr True"
    by code_simp
  have p: "package_dir example_manager ''core'' ''latest'' = [''cache'', ''core'', ''latest'']"
    by code_simp
  from install_idempotent [of world1 example_manager "''core''" "''latest''" tgz_net world0
      "[''cache'', ''core'', ''latest'']" world1] first cached p
  show ?thesis by (simp add: world1_def)
qed

subsection \<open>C4: the query filter\<close>

text \<open>
  C4 fails on the code. The indexer stores \<open>None\<close> for a field that the file does not
  have, so the default \<open>""\<close> of \<open>resource.get("name", "")\<close> is never used for a record
  of a known type, and \<open>str(None).lower()\<close> is \<open>none\<close>. In Scenario A the query
  \<open>none\<close> occurs in no name, URL or title of \<open>a.json\<close> and \<open>b.json\<close>, and the search
  returns both.
\<close>

theorem absent_field_matches_none:
  "\<not> py_in (py_lower ''none'') (py_lower ''Foo'') \<and>
   \<not> py_in (py_lower ''none'') (py_lower ''http://x/vs1'') \<and>
   search_resources example_manager tree_a ''pkg'' ''1.0.0'' (Some ''none'') None =
     Inr [[(''id'', JNull), (''url'', JNull), (''name'', JStr ''Foo''), (''title'', JNull),
           (''version'', JNull), (''file_path'', JStr ''/cache/pkg/1.0.0/a.json''),
           (''resourceType'', JStr ''StructureDefinition'')],
          [(''id'', JNull), (''url'', JStr ''http://x/vs1''), (''name'', JNull), (''title'', JNull),
           (''version'', JNull), (''file_path'', JStr ''/cache/pkg/1.0.0/b.json''),
           (''resourceType'', JStr ''ValueSet'')]]"
  by code_simp

subsection \<open>C5: search without filters\<close>

text \<open>
  C5. With no query and no resource type (each \<open>None\<close> or empty), the search returns,
  for every index, the records of the buckets in the order of the index, each bucket's
  records in their order, each record tagged with the name of its bucket: the field
  \<open>resourceType\<close> of the tagged record is the bucket name, every other field is the
  record's. \<open>search_resources\<close> does so on the index that \<open>build_resource_index\<close>
  returns.
\<close>

theorem search_without_filters:
  assumes "\<not> truthy_opt query" and "\<not> truthy_opt resource_type"
  shows "search_index query resource_type index [] =
           concat (map (\<lambda>b. map (tagged (fst b)) (snd b)) index) \<and>
         search_resources self root pid ver query resource_type =
           (case build_resource_index self root pid ver of
              Inl e \<Rightarrow> Inl e
            | Inr built \<Rightarrow> Inr (concat (map (\<lambda>b. map (tagged (fst b)) (snd b)) built))) \<and>
         dict_get (tagged res_type resource) ''resourceType'' dflt = JStr res_type \<and>
         (k \<noteq> ''resourceType'' \<longrightarrow>
            dict_get (tagged res_type resource) k dflt = dict_get resource k dflt)"
  using assms
  by (simp add: search_index_eq search_resources_def kept_def dict_get_tagged split: sum.splits)

text \<open>The theorem on Scenario A.\<close>

theorem search_without_filters_witness:
  "search_resources example_manager tree_a ''pkg'' ''1.0.0'' None None =
     Inr [[(''id'', JNull), (''url'', JNull), (''name'', JStr ''Foo''), (''title'', JNull),
           (''version'', JNull), (''file_path'', JStr ''/cache/pkg/1.0.0/a.json''),
           (''resourceType'', JStr ''StructureDefinition'')],
          [(''id'', JNull), (''url'', JStr ''http://x/vs1''), (''name'', JNull), (''title'', JNull),
           (''version'', JNull), (''file_path'', JStr ''/cache/pkg/1.0.0/b.json''),
           (''resourceType'', JStr ''ValueSet'')],
          [(''resourceType'', JStr ''examples''), (''id'', JNull),
           (''file_path'', JStr ''/cache/pkg/1.0.0/c.json'')]]"
proof -
  have b: "build_resource_index example_manager tree_a ''pkg'' ''1.0.0'' = Inr index_a"
    by code_simp
  have q: "\<not> truthy_opt None" by simp
  from search_without_filters [OF q q, of index_a example_manager tree_a "''pkg''" "''1.0.0''"]
  show ?thesis by (simp add: b index_a_def tagged_def)
qed

subsection \<open>C6: files that cannot be indexed\<close>

text \<open>
  C6 fails on the code. The loop catches \<open>JSONDecodeError\<close> and \<open>IOError\<close> only. A
  file that holds JSON that is no object (here the array \<open>[]\<close>) parses, and
  \<open>resource.get\<close> raises \<open>AttributeError\<close>, which ends the indexing: no index is
  returned, though \<open>bad.json\<close> failed to parse and \<open>b.json\<close> is a valid resource.
\<close>

theorem json_array_aborts_indexing:
  "json_load tree_list [''cache'', ''pkg'', ''1.0.0'', ''bad.json''] = Inl JSONDecodeError \<and>
   json_load tree_list [''cache'', ''pkg'', ''1.0.0'', ''list.json''] = Inr (JArr []) \<and>
   build_resource_index example_manager tree_list ''pkg'' ''1.0.0'' = Inl AttributeError"
  by code_simp

subsection \<open>C7: the metadata lookup URL\<close>

text \<open>
  C7. The URL of the metadata lookup is the registry URL, a slash and the id when the
  version is \<open>latest\<close>, and that followed by a slash and the version for every other
  version; \<open>_get_package_metadata\<close> requests exactly this URL.
\<close>

theorem metadata_lookup_url:
  "(ver = ''latest'' \<longrightarrow> metadata_url self pid ver = registry_url self @ ''/'' @ pid) \<and>
   (ver \<noteq> ''latest'' \<longrightarrow>
      metadata_url self pid ver = registry_url self @ ''/'' @ pid @ ''/'' @ ver) \<and>
   requested (snd (get_package_metadata net self pid ver w)) =
     requested w @ [metadata_url self pid ver]"
  using get_package_metadata_world [of net self pid ver w]
  by (cases "get_package_metadata net self pid ver w") (simp add: metadata_url_def)

text \<open>The theorem at the versions \<open>latest\<close> and \<open>4.0.1\<close>.\<close>

theorem metadata_lookup_url_witness:
  "metadata_url example_manager ''core'' ''latest'' = ''https://packages.fhir.org/core'' \<and>
   metadata_url example_manager ''core'' ''4.0.1'' = ''https://packages.fhir.org/core/4.0.1''"
  using metadata_lookup_url [of "''latest''" example_manager "''core''" "[]" world0]
    metadata_lookup_url [of "''4.0.1''" example_manager "''core''" "[]" world0]
  by (simp add: example_manager_def new_manager_def)

subsection \<open>C8: the keys of the index\<close>

text \<open>
  C8. An index that \<open>build_resource_index\<close> returns has the seven keys
  \<open>StructureDefinition\<close>, \<open>ValueSet\<close>, \<open>CodeSystem\<close>, \<open>SearchParameter\<close>,
  \<open>OperationDefinition\<close>, \<open>CapabilityStatement\<close> and \<open>examples\<close>, in this order,
  whatever the files declare; and a bucket to which no candidate file was appended is
  the empty list.
\<close>

theorem index_keys_fixed:
  assumes "build_resource_index self root pid ver = Inr index"
  shows "map fst index =
           [''StructureDefinition'', ''ValueSet'', ''CodeSystem'', ''SearchParameter'',
            ''OperationDefinition'', ''CapabilityStatement'', ''examples''] \<and>
         (\<forall>key \<in> set (map fst index).
            (\<forall>f \<in> set (candidate_files self root pid ver).
               map_option fst (file_entry root f) \<noteq> Some key)
            \<longrightarrow> map_of index key = Some [])"
proof -
  let ?es = "entries root (candidate_files self root pid ver)"
  have i: "index = map (\<lambda>b. (fst b, records_of (fst b) ?es)) empty_index"
    using assms by (simp add: build_resource_index_eq)
  have keys: "map fst index =
           [''StructureDefinition'', ''ValueSet'', ''CodeSystem'', ''SearchParameter'',
            ''OperationDefinition'', ''CapabilityStatement'', ''examples'']"
    by (simp add: i empty_index_def)
  have look: "key \<in> set (map fst index) \<Longrightarrow> map_of index key = Some (records_of key ?es)" for key
    by (auto simp: i empty_index_def)
  have none: "records_of key ?es = []"
    if "\<forall>f \<in> set (candidate_files self root pid ver).
          map_option fst (file_entry root f) \<noteq> Some key" for key
    using that
    by (auto simp: records_of_def filter_empty_conv set_entries)
  show ?thesis using keys look none by metis
qed

text \<open>The theorem on Scenario A, for the bucket \<open>CodeSystem\<close>.\<close>

theorem index_keys_fixed_witness:
  "map fst index_a =
     [''StructureDefinition'', ''ValueSet'', ''CodeSystem'', ''SearchParameter'',
      ''OperationDefinition'', ''CapabilityStatement'', ''examples''] \<and>
   map_of index_a ''CodeSystem'' = Some []"
proof -
  have b: "build_resource_index example_manager tree_a ''pkg'' ''1.0.0'' = Inr index_a"
    by code_simp
  have n: "\<forall>f \<in> set (candidate_files example_manager tree_a ''pkg'' ''1.0.0'').
             map_option fst (file_entry tree_a f) \<noteq> Some ''CodeSystem''"
    by code_simp
  have k: "''CodeSystem'' \<in> set (map fst index_a)"
    by code_simp
  from index_keys_fixed [OF b] n k show ?thesis by blast
qed

subsection \<open>C9: an identity that is not installed\<close>




subsection \<open>C10: the records of the \<open>examples\<close> bucket\<close>

text \<open>
  C10 fails on the code. The test \<open>resource_type in index\<close> holds for the key
  \<open>examples\<close> too, so a file that declares the resource type \<open>examples\<close> is appended
  to the \<open>examples\<close> bucket with the six fields of a known type, its name among them,
  and a search for \<open>foo\<close> returns it from that bucket.
\<close>

theorem examples_type_is_searchable:
  "build_resource_index example_manager tree_examples ''pkg'' ''1.0.0'' =
     Inr [(''StructureDefinition'', []),
          (''ValueSet'', []),
          (''CodeSystem'', []),
          (''SearchParameter'', []),
          (''OperationDefinition'', []),
          (''CapabilityStatement'', []),
          (''examples'',
           [[(''id'', JNull), (''url'', JNull), (''name'', JStr ''Foo''), (''title'', JNull),
             (''version'', JNull), (''file_path'', JStr ''/cache/pkg/1.0.0/e.json'')]])] \<and>
   search_resources example_manager tree_examples ''pkg'' ''1.0.0'' (Some ''foo'') None =
     Inr [[(''id'', JNull), (''url'', JNull), (''name'', JStr ''Foo''), (''title'', JNull),
           (''version'', JNull), (''file_path'', JStr ''/cache/pkg/1.0.0/e.json''),
           (''resourceType'', JStr ''examples'')]]"
  by code_simp

end
